theory Spec2Isabelle
  imports Main "HOL-Library.Multiset"
begin

section \<open>JavaScript strings and arrays\<close>

text \<open>
  The handlers use three string operations of JavaScript: \<^verbatim>\<open>startsWith\<close>,
  \<^verbatim>\<open>split\<close> on a one-character separator and indexing into the resulting array.
  \<^verbatim>\<open>split\<close> cuts at every occurrence of the separator and keeps empty pieces
  (\<^verbatim>\<open>'a  b'.split(' ')\<close> is \<^verbatim>\<open>['a', '', 'b']\<close>, \<^verbatim>\<open>''.split(' ')\<close> is \<^verbatim>\<open>['']\<close>); an index
  past the end of an array reads \<^verbatim>\<open>undefined\<close>, here \<open>None\<close>. A string is the
  list of its characters; the strings of a request are taken to be ASCII, so
  that the \<^verbatim>\<open>length\<close> the validators read is the length of the list.
\<close>

definition startsWith :: "string \<Rightarrow> string \<Rightarrow> bool" where
  "startsWith s p = (take (length p) s = p)"

fun js_split :: "char \<Rightarrow> string \<Rightarrow> string list" where
  "js_split sep [] = [[]]"
| "js_split sep (c # cs) =
     (if c = sep then [] # js_split sep cs
      else (case js_split sep cs of
              [] \<Rightarrow> [[c]]
            | w # ws \<Rightarrow> (c # w) # ws))"

definition js_index :: "'a list \<Rightarrow> nat \<Rightarrow> 'a option" where
  "js_index xs i = (if i < length xs then Some (xs ! i) else None)"

section \<open>Errors\<close>

text \<open>
  The three custom error classes the controllers throw carry their message. The
  next three are what the object-document mapper raises by itself: a value that
  cannot be cast to the type of its schema path, a document or update that fails
  the schema's validators, and a write that violates a unique index. The last
  is a plain \<^verbatim>\<open>Error\<close> with its message, as a library throws it.
\<close>

datatype error =
    BadRequestError string
  | UnauthenticatedError string
  | NotFoundError string
  | CastError
  | ValidationError
  | DuplicateKeyError
  | PlainError string

section \<open>JSON values\<close>

text \<open>
  A value of a parsed request body. A number is kept as an integer: of a number
  the handlers read only its type and whether it is zero, and a number with a
  fraction behaves there as a non-zero integer does. \<open>js_falsy\<close> is \<^verbatim>\<open>!v\<close> and
  \<open>js_typeof\<close> is \<^verbatim>\<open>typeof v\<close>.
\<close>

datatype json =
    JNull
  | JBool bool
  | JNum int
  | JStr string
  | JArr "json list"
  | JObj "(string \<times> json) list"

fun js_falsy :: "json \<Rightarrow> bool" where
  "js_falsy JNull = True"
| "js_falsy (JBool b) = (\<not> b)"
| "js_falsy (JNum n) = (n = 0)"
| "js_falsy (JStr s) = (s = [])"
| "js_falsy (JArr xs) = False"
| "js_falsy (JObj kvs) = False"

fun js_typeof :: "json \<Rightarrow> string" where
  "js_typeof JNull = ''object''"
| "js_typeof (JBool b) = ''boolean''"
| "js_typeof (JNum n) = ''number''"
| "js_typeof (JStr s) = ''string''"
| "js_typeof (JArr xs) = ''object''"
| "js_typeof (JObj kvs) = ''object''"

definition StatusCodes_OK :: nat where
  "StatusCodes_OK = 200"

definition StatusCodes_CREATED :: nat where
  "StatusCodes_CREATED = 201"

section \<open>Object identifiers\<close>

text \<open>
  An identifier is kept as its canonical text, 24 lower-case hexadecimal digits.
  \<open>ObjectId\<close> is the driver's constructor applied to a string: it accepts 24
  hexadecimal digits in either case and throws on anything else. (Older
  releases of the driver also read any string of twelve characters as the
  twelve bytes of an identifier; that form is not modelled. The statements below
  speak of a string through the result of \<open>ObjectId\<close> on it.)
\<close>

type_synonym oid = string

definition isHexDigit :: "char \<Rightarrow> bool" where
  "isHexDigit c = (c \<in> set ''0123456789abcdefABCDEF'')"

definition hexLower :: "char \<Rightarrow> char" where
  "hexLower c = (case map_of (zip ''ABCDEF'' ''abcdef'') c of Some l \<Rightarrow> l | None \<Rightarrow> c)"

definition ObjectId :: "string \<Rightarrow> error + oid" where
  "ObjectId s =
     (if length s = 24 \<and> list_all isHexDigit s then Inr (map hexLower s)
      else Inl CastError)"

section \<open>The Job model\<close>

text \<open>
  A stored job document: the four paths of \<^verbatim>\<open>JobSchema\<close>, the \<^verbatim>\<open>_id\<close> the
  driver assigns and the two timestamps of \<^verbatim>\<open>{ timestamps: true }\<close> (milliseconds).
  The collection is the list of its documents in insertion order.
\<close>

record job =
  job_id :: oid
  company :: string
  position :: string
  status :: string
  createdBy :: oid
  createdAt :: nat
  updatedAt :: nat

text \<open>
  A request body, as far as the Job schema reads it: each of the four paths is
  absent or a JSON string. Keys outside the schema are dropped by the mapper's
  strict mode before any write and are not modelled; values of other JSON types
  are outside this model.
\<close>

record job_body =
  b_company :: "string option"
  b_position :: "string option"
  b_status :: "string option"
  b_createdBy :: "string option"

text \<open>
  The query object \<^verbatim>\<open>{ _id: ..., createdBy: ... }\<close> the controllers build; a key that
  is not written is \<open>None\<close>.
\<close>

record job_filter =
  f_id :: "string option"
  f_createdBy :: "string option"

text \<open>
  What a caller hands to an argument that is meant to be an identifier: a string,
  or (as \<^verbatim>\<open>updateJob\<close> does) an object.
\<close>

datatype id_arg = IdStr string | IdObj job_filter

text \<open>
  The mapper's cast to an identifier (\<^verbatim>\<open>castObjectId\<close>): a string goes through the
  constructor; for an object with a truthy member \<^verbatim>\<open>_id\<close> the cast is the cast of
  that member, and the object's other members are not read; an object without
  one is rendered with \<^verbatim>\<open>toString\<close>, which the constructor refuses.
\<close>

fun castObjectId :: "id_arg \<Rightarrow> error + oid" where
  "castObjectId (IdStr s) = ObjectId s"
| "castObjectId (IdObj f) =
     (case f_id f of
        None \<Rightarrow> Inl CastError
      | Some s \<Rightarrow> ObjectId s)"

text \<open>A query after casting: the identifiers to compare with, per key.\<close>

fun castOpt :: "string option \<Rightarrow> error + oid option" where
  "castOpt None = Inr None"
| "castOpt (Some s) = (case ObjectId s of Inl e \<Rightarrow> Inl e | Inr i \<Rightarrow> Inr (Some i))"

definition castFilter :: "job_filter \<Rightarrow> error + (oid option \<times> oid option)" where
  "castFilter f =
     (case castOpt (f_id f) of
        Inl e \<Rightarrow> Inl e
      | Inr i \<Rightarrow> (case castOpt (f_createdBy f) of
                   Inl e \<Rightarrow> Inl e
                 | Inr c \<Rightarrow> Inr (i, c)))"

fun matches :: "oid option \<times> oid option \<Rightarrow> job \<Rightarrow> bool" where
  "matches (i, c) j =
     ((case i of None \<Rightarrow> True | Some x \<Rightarrow> job_id j = x) \<and>
      (case c of None \<Rightarrow> True | Some y \<Rightarrow> createdBy j = y))"

subsection \<open>Schema validation\<close>

definition status_enum :: "string list" where
  "status_enum = [''interview'', ''declined'', ''pending'']"

text \<open>
  \<^verbatim>\<open>required\<close> on a string path fails on an absent value and on the empty string;
  \<^verbatim>\<open>maxlength\<close> and \<^verbatim>\<open>enum\<close> are checked on a value that is there.
\<close>

definition required_string :: "string option \<Rightarrow> bool" where
  "required_string v = (case v of None \<Rightarrow> False | Some s \<Rightarrow> s \<noteq> [])"

definition maxlength_ok :: "nat \<Rightarrow> string option \<Rightarrow> bool" where
  "maxlength_ok n v = (case v of None \<Rightarrow> True | Some s \<Rightarrow> length s \<le> n)"

definition enum_ok :: "string option \<Rightarrow> bool" where
  "enum_ok v = (case v of None \<Rightarrow> True | Some s \<Rightarrow> s \<in> set status_enum)"

subsection \<open>Queries and writes\<close>

definition Job_find :: "job_filter \<Rightarrow> job list \<Rightarrow> error + job list" where
  "Job_find f db =
     (case castFilter f of
        Inl e \<Rightarrow> Inl e
      | Inr q \<Rightarrow> Inr (filter (matches q) db))"

definition Job_findOne :: "job_filter \<Rightarrow> job list \<Rightarrow> error + job option" where
  "Job_findOne f db =
     (case castFilter f of
        Inl e \<Rightarrow> Inl e
      | Inr q \<Rightarrow> Inr (find (matches q) db))"

text \<open>
  \<^verbatim>\<open>Job.create\<close>: cast and validate the document (a cast failure of a path is
  reported by validation), apply the default of \<^verbatim>\<open>status\<close>, stamp it and insert
  it under the identifier \<open>newId\<close> the driver generated. The collection's index on
  \<^verbatim>\<open>_id\<close> refuses an identifier that is already there.
\<close>

definition Job_create :: "job_body \<Rightarrow> oid \<Rightarrow> nat \<Rightarrow> job list \<Rightarrow> error + (job \<times> job list)" where
  "Job_create b newId now db =
     (case b_createdBy b of
        None \<Rightarrow> Inl ValidationError
      | Some u \<Rightarrow>
          (case ObjectId u of
             Inl e \<Rightarrow> Inl ValidationError
           | Inr owner \<Rightarrow>
               if required_string (b_company b) \<and> maxlength_ok 50 (b_company b) \<and>
                  required_string (b_position b) \<and> maxlength_ok 100 (b_position b) \<and>
                  enum_ok (b_status b)
               then
                 (if newId \<in> set (map job_id db) then Inl DuplicateKeyError
                  else
                    (let j = \<lparr> job_id = newId,
                               company = the (b_company b),
                               position = the (b_position b),
                               status = (case b_status b of None \<Rightarrow> ''pending'' | Some s \<Rightarrow> s),
                               createdBy = owner,
                               createdAt = now,
                               updatedAt = now \<rparr>
                     in Inr (j, db @ [j])))
               else Inl ValidationError))"

text \<open>
  An update document is the request body: the mapper wraps its schema paths in
  \<^verbatim>\<open>$set\<close>, so a path that is present replaces the stored value and an absent
  one leaves it, and the timestamps plugin sets \<^verbatim>\<open>updatedAt\<close>.
\<close>

definition applyUpdate :: "job_body \<Rightarrow> oid option \<Rightarrow> nat \<Rightarrow> job \<Rightarrow> job" where
  "applyUpdate b owner now j =
     j \<lparr> company := (case b_company b of None \<Rightarrow> company j | Some s \<Rightarrow> s),
         position := (case b_position b of None \<Rightarrow> position j | Some s \<Rightarrow> s),
         status := (case b_status b of None \<Rightarrow> status j | Some s \<Rightarrow> s),
         createdBy := (case owner of None \<Rightarrow> createdBy j | Some u \<Rightarrow> u),
         updatedAt := now \<rparr>"

text \<open>With \<^verbatim>\<open>runValidators: true\<close> the validators of the paths being set run.\<close>

definition validateUpdate :: "job_body \<Rightarrow> bool" where
  "validateUpdate b =
     ((case b_company b of None \<Rightarrow> True | Some s \<Rightarrow> s \<noteq> [] \<and> length s \<le> 50) \<and>
      (case b_position b of None \<Rightarrow> True | Some s \<Rightarrow> s \<noteq> [] \<and> length s \<le> 100) \<and>
      enum_ok (b_status b))"

text \<open>The first document that satisfies \<open>P\<close> is replaced, or removed.\<close>

fun update_first :: "('a \<Rightarrow> bool) \<Rightarrow> ('a \<Rightarrow> 'a) \<Rightarrow> 'a list \<Rightarrow> 'a list" where
  "update_first P g [] = []"
| "update_first P g (x # xs) = (if P x then g x # xs else x # update_first P g xs)"

fun delete_first :: "('a \<Rightarrow> bool) \<Rightarrow> 'a list \<Rightarrow> 'a list" where
  "delete_first P [] = []"
| "delete_first P (x # xs) = (if P x then xs else x # delete_first P xs)"

text \<open>
  \<^verbatim>\<open>Model.findOneAndUpdate(filter, update, { new: true, runValidators: true })\<close>:
  the document after the update, or \<^verbatim>\<open>null\<close> when none matches. It is written
  over a query that is already cast.
\<close>

definition findOneAndUpdate_cast ::
    "oid option \<times> oid option \<Rightarrow> job_body \<Rightarrow> nat \<Rightarrow> job list \<Rightarrow> error + (job option \<times> job list)" where
  "findOneAndUpdate_cast q b now db =
     (case castOpt (b_createdBy b) of
        Inl e \<Rightarrow> Inl e
      | Inr owner \<Rightarrow>
          if validateUpdate b then
            (case find (matches q) db of
               None \<Rightarrow> Inr (None, db)
             | Some j \<Rightarrow>
                 Inr (Some (applyUpdate b owner now j),
                      update_first (matches q) (applyUpdate b owner now) db))
          else Inl ValidationError)"

text \<open>
  \<^verbatim>\<open>Model.findByIdAndUpdate(id, update, options)\<close> is
  \<^verbatim>\<open>findOneAndUpdate({ _id: id }, update, options)\<close>: its first argument is an
  identifier, not a query, and the query it builds has the single key \<^verbatim>\<open>_id\<close>,
  whose value is cast with \<open>castObjectId\<close>.
\<close>

definition Job_findByIdAndUpdate ::
    "id_arg \<Rightarrow> job_body \<Rightarrow> nat \<Rightarrow> job list \<Rightarrow> error + (job option \<times> job list)" where
  "Job_findByIdAndUpdate ident b now db =
     (case castObjectId ident of
        Inl e \<Rightarrow> Inl e
      | Inr i \<Rightarrow> findOneAndUpdate_cast (Some i, None) b now db)"

definition Job_findOneAndDelete :: "job_filter \<Rightarrow> job list \<Rightarrow> error + (job option \<times> job list)" where
  "Job_findOneAndDelete f db =
     (case castFilter f of
        Inl e \<Rightarrow> Inl e
      | Inr q \<Rightarrow>
          (case find (matches q) db of
             None \<Rightarrow> Inr (None, db)
           | Some j \<Rightarrow> Inr (Some j, delete_first (matches q) db)))"

section \<open>The job controller\<close>

text \<open>
  A handler either throws or sends one response, a status and a JSON body. The
  handlers that write also return the collection after the write. The
  \<^verbatim>\<open>sort('createdAt')\<close> of \<open>getAllJobs\<close> is ascending; documents stamped at the same
  millisecond are left in the order of the collection.
\<close>

datatype res_body =
    JobsBody "job list" nat
  | JobBody job
  | JobArrayBody "job list"
  | RegisterBody string string string
  | LoginBody string string
  | NoBody

record response =
  res_status :: nat
  res_json :: res_body

definition getAllJobs :: "string \<Rightarrow> job list \<Rightarrow> error + response" where
  "getAllJobs userId db =
     (case Job_find \<lparr> f_id = None, f_createdBy = Some userId \<rparr> db of
        Inl e \<Rightarrow> Inl e
      | Inr found \<Rightarrow>
          (let jobs = sort_key createdAt found
           in Inr \<lparr> res_status = StatusCodes_OK, res_json = JobsBody jobs (length jobs) \<rparr>))"

definition getJob :: "string \<Rightarrow> string \<Rightarrow> job list \<Rightarrow> error + response" where
  "getJob userId jobId db =
     (case Job_findOne \<lparr> f_id = Some jobId, f_createdBy = Some userId \<rparr> db of
        Inl e \<Rightarrow> Inl e
      | Inr None \<Rightarrow> Inl (NotFoundError (''No job with id '' @ jobId))
      | Inr (Some j) \<Rightarrow> Inr \<lparr> res_status = StatusCodes_OK, res_json = JobBody j \<rparr>)"

text \<open>
  The body parser hands over a JSON object or a JSON array. On an array the
  assignment \<^verbatim>\<open>req.body.createdBy = ...\<close> of \<open>createJob\<close> sets a property of the
  array itself and leaves its elements as they are, and \<^verbatim>\<open>Job.create\<close> saves
  every element (taken to be an object) as a document of its own: the elements
  that pass are stored also when another one fails, and then the first failure
  is thrown. The saves run side by side; here they are taken in the order of
  the array. \<open>newId i\<close> is the identifier the driver generates for the
  \<open>i\<close>-th document. Because a failed \<open>createJob\<close> can have stored documents,
  it returns the collection next to its result.
\<close>

datatype create_body = BodyObject job_body | BodyArray "job_body list"

fun create_each ::
    "job_body list \<Rightarrow> (nat \<Rightarrow> oid) \<Rightarrow> nat \<Rightarrow> nat \<Rightarrow> job list \<Rightarrow> error option \<times> job list \<times> job list" where
  "create_each [] newId i now db = (None, [], db)"
| "create_each (b # bs) newId i now db =
     (case Job_create b (newId i) now db of
        Inl e \<Rightarrow>
          (case create_each bs newId (Suc i) now db of
             (later, saved, db') \<Rightarrow> (Some e, saved, db'))
      | Inr (j, db1) \<Rightarrow>
          (case create_each bs newId (Suc i) now db1 of
             (later, saved, db') \<Rightarrow> (later, j # saved, db')))"

definition createJob ::
    "string \<Rightarrow> create_body \<Rightarrow> (nat \<Rightarrow> oid) \<Rightarrow> nat \<Rightarrow> job list \<Rightarrow> (error + response) \<times> job list" where
  "createJob userId body newId now db =
     (case body of
        BodyObject b \<Rightarrow>
          (case Job_create (b \<lparr> b_createdBy := Some userId \<rparr>) (newId 0) now db of
             Inl e \<Rightarrow> (Inl e, db)
           | Inr (j, db') \<Rightarrow>
               (Inr \<lparr> res_status = StatusCodes_CREATED, res_json = JobBody j \<rparr>, db'))
      | BodyArray bs \<Rightarrow>
          (case create_each bs newId 0 now db of
             (Some e, saved, db') \<Rightarrow> (Inl e, db')
           | (None, saved, db') \<Rightarrow>
               (Inr \<lparr> res_status = StatusCodes_CREATED, res_json = JobArrayBody saved \<rparr>, db')))"

definition updateJob ::
    "string \<Rightarrow> string \<Rightarrow> job_body \<Rightarrow> nat \<Rightarrow> job list \<Rightarrow> error + (response \<times> job list)" where
  "updateJob userId jobId body now db =
     (if b_company body = Some [] \<or> b_position body = Some [] then
        Inl (BadRequestError ''Company or Position fields cannot be empty'')
      else
        (case Job_findByIdAndUpdate
                (IdObj \<lparr> f_id = Some jobId, f_createdBy = Some userId \<rparr>) body now db of
           Inl e \<Rightarrow> Inl e
         | Inr (None, db') \<Rightarrow> Inl (NotFoundError (''No job with id '' @ jobId))
         | Inr (Some j, db') \<Rightarrow>
             Inr (\<lparr> res_status = StatusCodes_OK, res_json = JobBody j \<rparr>, db')))"

definition deleteJob :: "string \<Rightarrow> string \<Rightarrow> job list \<Rightarrow> error + (response \<times> job list)" where
  "deleteJob userId jobId db =
     (case Job_findOneAndDelete \<lparr> f_id = Some jobId, f_createdBy = Some userId \<rparr> db of
        Inl e \<Rightarrow> Inl e
      | Inr (None, db') \<Rightarrow> Inl (NotFoundError (''No job with id '' @ jobId))
      | Inr (Some j, db') \<Rightarrow>
          Inr (\<lparr> res_status = StatusCodes_OK, res_json = NoBody \<rparr>, db'))"

section \<open>The environment: configuration and the libraries\<close>

text \<open>
  The token library and the password-hashing library are dependencies, not code
  of this program, and the secret and the lifetime are read from the process
  environment. They are collected in one record that every function using them
  takes as an argument. \<open>JWT_LIFETIME\<close> is the configured timespan in seconds;
  the configuration is taken to be well-formed (a secret and a lifetime are
  set).

  The record also holds \<open>query_email\<close>, the answer of the mapper to
  \<^verbatim>\<open>User.findOne({ email: v })\<close> for a value \<open>v\<close> that is not a string (a number
  or boolean it renders as text, an array it reads as a membership test, an
  object may be a query operator or fail to cast). That part of the mapper's
  query language is not modelled; every statement below holds whatever it
  answers.

  \<open>jwt_encode\<close> serialises a set of claims and signs it under a key;
  \<open>jwt_decode\<close> parses a token and checks its signature under a key,
  answering \<open>None\<close> for a malformed token or a signature that does not match.
  What the library does around them (its argument checks, the issue and expiry
  times) is written out below in \<open>jwt_sign\<close> and \<open>jwt_verify\<close>.
\<close>

text \<open>
  A stored user document: the three paths of \<^verbatim>\<open>UserSchema\<close> (the password is
  the hash), the \<^verbatim>\<open>_id\<close> and the two timestamps.
\<close>

record user =
  user_id :: oid
  user_name :: string
  user_email :: string
  user_password :: string
  user_createdAt :: nat
  user_updatedAt :: nat

record jwt_claims =
  c_userId :: string
  c_name :: string
  c_iat :: nat
  c_exp :: nat

record env =
  JWT_SECRET :: string
  JWT_LIFETIME :: nat
  jwt_encode :: "jwt_claims \<Rightarrow> string \<Rightarrow> string"
  jwt_decode :: "string \<Rightarrow> string \<Rightarrow> jwt_claims option"
  bcrypt_hash :: "string \<Rightarrow> string \<Rightarrow> string"
  bcrypt_compare :: "string \<Rightarrow> string \<Rightarrow> bool"
  query_email :: "json \<Rightarrow> user list \<Rightarrow> error + user option"

text \<open>
  \<^verbatim>\<open>jwt.sign(payload, secret, { expiresIn })\<close> at the clock reading \<open>now\<close>
  (milliseconds): the issue time is the current second and the expiry is the
  issue time plus the lifetime.
\<close>

definition jwt_sign :: "env \<Rightarrow> string \<Rightarrow> string \<Rightarrow> string \<Rightarrow> nat \<Rightarrow> nat \<Rightarrow> string" where
  "jwt_sign E uid nm secret lifetime now =
     jwt_encode E \<lparr> c_userId = uid, c_name = nm,
                    c_iat = now div 1000, c_exp = now div 1000 + lifetime \<rparr> secret"

text \<open>
  \<^verbatim>\<open>jwt.verify(token, secret)\<close>: it throws (here \<open>None\<close>) when no token is given
  (\<^verbatim>\<open>undefined\<close> or the empty string), when the token does not parse or its
  signature does not match, and when the current second has reached the expiry.
\<close>

definition jwt_verify :: "env \<Rightarrow> string option \<Rightarrow> string \<Rightarrow> nat \<Rightarrow> jwt_claims option" where
  "jwt_verify E token secret now =
     (case token of
        None \<Rightarrow> None
      | Some t \<Rightarrow>
          if t = [] then None
          else (case jwt_decode E t secret of
                  None \<Rightarrow> None
                | Some c \<Rightarrow> if c_exp c \<le> now div 1000 then None else Some c))"

section \<open>The authentication middleware\<close>

text \<open>What \<^verbatim>\<open>auth\<close> stores in \<^verbatim>\<open>req.user\<close>.\<close>

record req_user =
  u_userId :: string
  u_name :: string

definition auth :: "env \<Rightarrow> nat \<Rightarrow> string option \<Rightarrow> error + req_user" where
  "auth E now authorization =
     (case authorization of
        None \<Rightarrow> Inl (UnauthenticatedError ''Authentication invalid'')
      | Some authHeader \<Rightarrow>
          if authHeader = [] \<or> \<not> startsWith authHeader ''Bearer'' then
            Inl (UnauthenticatedError ''Authentication invalid'')
          else
            (let token = js_index (js_split (CHR '' '') authHeader) 1
             in case jwt_verify E token (JWT_SECRET E) now of
                  None \<Rightarrow> Inl (UnauthenticatedError ''Authentication invalid'')
                | Some payload \<Rightarrow>
                    Inr \<lparr> u_userId = c_userId payload, u_name = c_name payload \<rparr>))"

section \<open>The User model\<close>

text \<open>
  The body of a registration request as the User schema reads it: each of the
  three paths absent or a JSON string.
\<close>

record auth_body =
  b_name :: "string option"
  b_email :: "string option"
  b_password :: "string option"

subsection \<open>The e-mail pattern of the schema\<close>

text \<open>
  The pattern is anchored at both ends and has the shape \<^verbatim>\<open>local@domain\<close>. No
  character of a domain is \<^verbatim>\<open>@\<close>, so the separator is the last \<^verbatim>\<open>@\<close> of
  the string. The local part is a dot-separated sequence of non-empty atoms, or
  anything of at least one character (no line break) between double quotes. The
  domain is four groups of one to three digits in square brackets, or at least
  one label of letters, digits and hyphens, each followed by a dot, and a final
  label of at least two letters.
\<close>

definition atom_excluded :: "char list" where
  "atom_excluded =
     ''<>()[].,;:@'' @ [CHR 0x5C, CHR 0x22, CHR 0x20, CHR 0x09, CHR 0x0A, CHR 0x0B, CHR 0x0C, CHR 0x0D]"

definition isDigit :: "char \<Rightarrow> bool" where
  "isDigit c = (c \<in> set ''0123456789'')"

definition isLetter :: "char \<Rightarrow> bool" where
  "isLetter c = (c \<in> set ''abcdefghijklmnopqrstuvwxyzABCDEFGHIJKLMNOPQRSTUVWXYZ'')"

definition isAtom :: "string \<Rightarrow> bool" where
  "isAtom p = (p \<noteq> [] \<and> list_all (\<lambda>c. c \<notin> set atom_excluded) p)"

definition local_ok :: "string \<Rightarrow> bool" where
  "local_ok l =
     (list_all isAtom (js_split (CHR ''.'') l) \<or>
      (3 \<le> length l \<and> hd l = CHR 0x22 \<and> last l = CHR 0x22 \<and>
       list_all (\<lambda>c. c \<noteq> CHR 0x0A \<and> c \<noteq> CHR 0x0D) (butlast (tl l))))"

definition isOctetGroup :: "string \<Rightarrow> bool" where
  "isOctetGroup g = (1 \<le> length g \<and> length g \<le> 3 \<and> list_all isDigit g)"

definition isLabel :: "string \<Rightarrow> bool" where
  "isLabel p = (p \<noteq> [] \<and> list_all (\<lambda>c. isLetter c \<or> isDigit c \<or> c = CHR ''-'') p)"

definition domain_ok :: "string \<Rightarrow> bool" where
  "domain_ok d =
     ((2 \<le> length d \<and> hd d = CHR ''['' \<and> last d = CHR '']'' \<and>
       (let gs = js_split (CHR ''.'') (butlast (tl d))
        in length gs = 4 \<and> list_all isOctetGroup gs)) \<or>
      (let ps = js_split (CHR ''.'') d
       in 2 \<le> length ps \<and> list_all isLabel (butlast ps) \<and>
          2 \<le> length (last ps) \<and> list_all isLetter (last ps)))"

definition email_match :: "string \<Rightarrow> bool" where
  "email_match s =
     (let ps = js_split (CHR ''@'') s;
          d = last ps;
          l = take (length s - Suc (length d)) s
      in 2 \<le> length ps \<and> local_ok l \<and> domain_ok d)"

subsection \<open>Queries and writes\<close>

text \<open>
  \<^verbatim>\<open>User.create\<close>: the validators of the three paths run on the plain values,
  then the \<^verbatim>\<open>pre('save')\<close> hook replaces the password by its hash under the
  salt \<^verbatim>\<open>bcrypt.genSalt\<close> returned, then the document is inserted; the unique
  index on \<^verbatim>\<open>email\<close> refuses an address that is already stored.
\<close>

definition validateUser :: "auth_body \<Rightarrow> bool" where
  "validateUser b =
     (required_string (b_name b) \<and> 3 \<le> length (the (b_name b)) \<and> length (the (b_name b)) \<le> 50 \<and>
      required_string (b_email b) \<and> email_match (the (b_email b)) \<and>
      required_string (b_password b) \<and> 6 \<le> length (the (b_password b)))"

definition User_create ::
    "env \<Rightarrow> auth_body \<Rightarrow> string \<Rightarrow> oid \<Rightarrow> nat \<Rightarrow> user list \<Rightarrow> error + (user \<times> user list)" where
  "User_create E b salt newId now db =
     (if validateUser b then
        (let u = \<lparr> user_id = newId,
                   user_name = the (b_name b),
                   user_email = the (b_email b),
                   user_password = bcrypt_hash E (the (b_password b)) salt,
                   user_createdAt = now,
                   user_updatedAt = now \<rparr>
         in if user_email u \<in> set (map user_email db) \<or> newId \<in> set (map user_id db)
            then Inl DuplicateKeyError
            else Inr (u, db @ [u]))
      else Inl ValidationError)"

text \<open>
  \<^verbatim>\<open>User.findOne({ email })\<close>: for a string, the first stored user with that
  address.
\<close>

definition User_findOne :: "env \<Rightarrow> json \<Rightarrow> user list \<Rightarrow> error + user option" where
  "User_findOne E em db =
     (case em of
        JStr s \<Rightarrow> Inr (find (\<lambda>u. user_email u = s) db)
      | _ \<Rightarrow> query_email E em db)"

definition createJWT :: "env \<Rightarrow> nat \<Rightarrow> user \<Rightarrow> string" where
  "createJWT E now u = jwt_sign E (user_id u) (user_name u) (JWT_SECRET E) (JWT_LIFETIME E) now"

text \<open>
  \<^verbatim>\<open>bcrypt.compare\<close> rejects with a plain error when its first argument is not a
  string (the stored hash always is one); \<open>comparePassword\<close> does not catch it.
\<close>

definition comparePassword :: "env \<Rightarrow> user \<Rightarrow> json \<Rightarrow> error + bool" where
  "comparePassword E u canditatePassword =
     (case canditatePassword of
        JStr s \<Rightarrow> Inr (bcrypt_compare E s (user_password u))
      | _ \<Rightarrow> Inl (PlainError (''Illegal arguments: '' @ js_typeof canditatePassword @ '', string'')))"

section \<open>The auth controller\<close>

text \<open>
  \<open>register\<close> reads the clock twice, when the document is stamped and when the
  token is signed.
\<close>

definition register ::
    "env \<Rightarrow> auth_body \<Rightarrow> string \<Rightarrow> oid \<Rightarrow> nat \<Rightarrow> nat \<Rightarrow> user list \<Rightarrow> error + (response \<times> user list)" where
  "register E body salt newId saveTime signTime db =
     (case User_create E body salt newId saveTime db of
        Inl e \<Rightarrow> Inl e
      | Inr (u, db') \<Rightarrow>
          (let token = createJWT E signTime u
           in Inr (\<lparr> res_status = StatusCodes_CREATED,
                     res_json = RegisterBody (user_name u) (user_email u) token \<rparr>, db')))"

text \<open>
  The body as \<open>login\<close> reads it: the two fields it takes from \<^verbatim>\<open>req.body\<close>,
  each absent or any JSON value. \<open>falsy\<close> is \<^verbatim>\<open>!v\<close> for such a field: true when
  the field is absent and when its value is \<^verbatim>\<open>null\<close>, \<^verbatim>\<open>false\<close>, zero or the
  empty string.
\<close>

record login_body =
  l_email :: "json option"
  l_password :: "json option"

definition falsy :: "json option \<Rightarrow> bool" where
  "falsy v = (case v of None \<Rightarrow> True | Some x \<Rightarrow> js_falsy x)"

text \<open>
  \<open>login\<close> is returned together with the calls it made to the credential store
  and to the libraries, in order, so that what it did not do can be stated. An
  error of the store or of \<open>comparePassword\<close> passes through \<open>login\<close> as it is.
\<close>

datatype call =
    Call_findOne json
  | Call_comparePassword oid json
  | Call_createJWT oid

definition login :: "env \<Rightarrow> login_body \<Rightarrow> nat \<Rightarrow> user list \<Rightarrow> call list \<times> (error + response)" where
  "login E body now db =
     (if falsy (l_email body) \<or> falsy (l_password body) then
        ([], Inl (BadRequestError ''Please provide email and password''))
      else
        (let em = the (l_email body); pw = the (l_password body)
         in case User_findOne E em db of
              Inl e \<Rightarrow> ([Call_findOne em], Inl e)
            | Inr None \<Rightarrow> ([Call_findOne em], Inl (UnauthenticatedError ''Invalid Credentials''))
            | Inr (Some u) \<Rightarrow>
                (case comparePassword E u pw of
                   Inl e \<Rightarrow> ([Call_findOne em, Call_comparePassword (user_id u) pw], Inl e)
                 | Inr isPasswordCorrect \<Rightarrow>
                     if \<not> isPasswordCorrect then
                       ([Call_findOne em, Call_comparePassword (user_id u) pw],
                        Inl (UnauthenticatedError ''Invalid Credentials''))
                     else
                       ([Call_findOne em, Call_comparePassword (user_id u) pw,
                         Call_createJWT (user_id u)],
                        Inr \<lparr> res_status = StatusCodes_OK,
                              res_json = LoginBody (user_name u) (createJWT E now u) \<rparr>))))"

section \<open>Status codes of errors\<close>

text \<open>
  Modelled from the spec: the error classes of \<^verbatim>\<open>../errors\<close> and the boundary
  translator \<^verbatim>\<open>middleware/error-handler\<close> are not among the source files. The
  spec's error taxonomy maps a bad request, a validation error and a duplicate
  e-mail to 400, an unauthenticated request to 401, a missing resource to 404
  and any other failure to 500.
\<close>

fun errorStatus :: "error \<Rightarrow> nat" where
  "errorStatus (BadRequestError m) = 400"
| "errorStatus (UnauthenticatedError m) = 401"
| "errorStatus (NotFoundError m) = 404"
| "errorStatus ValidationError = 400"
| "errorStatus DuplicateKeyError = 400"
| "errorStatus CastError = 500"
| "errorStatus (PlainError m) = 500"

section \<open>Notions used in the statements\<close>

text \<open>
  The header form the specification asks for, in its own words: the word
  \<^verbatim>\<open>Bearer\<close>, one space, and a token, which is not empty and has no space in
  it. The middleware does not use this definition; it is what \<open>auth\<close> is
  compared with.
\<close>

definition spec_bearer_form :: "string \<Rightarrow> bool" where
  "spec_bearer_form h =
     (startsWith h ''Bearer '' \<and> drop 7 h \<noteq> [] \<and> CHR '' '' \<notin> set (drop 7 h))"

text \<open>
  What the token library promises about its two primitives: a token it issued
  is not the empty string, and decoding it under the key it was signed with
  gives back the claims that were encoded.
\<close>

definition jwt_correct :: "env \<Rightarrow> bool" where
  "jwt_correct E =
     (\<forall>c k. jwt_encode E c k \<noteq> [] \<and> jwt_decode E (jwt_encode E c k) k = Some c)"

section \<open>A concrete environment and concrete data\<close>

text \<open>
  The theorems below hold for every environment. To evaluate the handlers on
  concrete requests, \<open>demo_env\<close> supplies executable stand-ins for the two
  libraries: a token is its claims and a tag naming the key, each field
  preceded by its length in unary, and a hash is the salt followed by the
  password. Neither is a cryptographic construction; \<open>demo_env\<close> only shows
  that \<open>jwt_correct\<close> can be met and carries the examples. Its \<open>query_email\<close>
  finds nobody.
\<close>

fun enc_nat :: "nat \<Rightarrow> string" where
  "enc_nat 0 = ''.''"
| "enc_nat (Suc n) = CHR ''i'' # enc_nat n"

definition enc_str :: "string \<Rightarrow> string" where
  "enc_str s = enc_nat (length s) @ s"

fun take_nat :: "string \<Rightarrow> (nat \<times> string) option" where
  "take_nat [] = None"
| "take_nat (c # cs) =
     (if c = CHR ''.'' then Some (0, cs)
      else if c = CHR ''i'' then map_option (\<lambda>(n, r). (Suc n, r)) (take_nat cs)
      else None)"

definition take_str :: "string \<Rightarrow> (string \<times> string) option" where
  "take_str s =
     (case take_nat s of
        None \<Rightarrow> None
      | Some (n, r) \<Rightarrow> if n \<le> length r then Some (take n r, drop n r) else None)"

definition demo_encode :: "jwt_claims \<Rightarrow> string \<Rightarrow> string" where
  "demo_encode c k =
     enc_str (c_userId c) @ enc_str (c_name c) @ enc_nat (c_iat c) @ enc_nat (c_exp c) @ enc_str k"

definition demo_decode :: "string \<Rightarrow> string \<Rightarrow> jwt_claims option" where
  "demo_decode t k =
     (case take_str t of None \<Rightarrow> None | Some (uid, r1) \<Rightarrow>
      (case take_str r1 of None \<Rightarrow> None | Some (nm, r2) \<Rightarrow>
       (case take_nat r2 of None \<Rightarrow> None | Some (iat, r3) \<Rightarrow>
        (case take_nat r3 of None \<Rightarrow> None | Some (ex, r4) \<Rightarrow>
         (if r4 = enc_str k
          then Some \<lparr> c_userId = uid, c_name = nm, c_iat = iat, c_exp = ex \<rparr>
          else None)))))"

definition demo_env :: env where
  "demo_env = \<lparr> JWT_SECRET = ''s3cret'', JWT_LIFETIME = 30,
                jwt_encode = demo_encode, jwt_decode = demo_decode,
                bcrypt_hash = (\<lambda>pw salt. salt @ pw),
                bcrypt_compare = (\<lambda>pw h. drop 4 h = pw),
                query_email = (\<lambda>v db. Inr None) \<rparr>"

text \<open>Two users, Ann (\<open>idA\<close>) and Bob (\<open>idB\<close>), and three jobs.\<close>

definition idA :: oid where
  "idA = ''aaaaaaaaaaaaaaaaaaaaaaaa''"

definition idB :: oid where
  "idB = ''bbbbbbbbbbbbbbbbbbbbbbbb''"

definition jid1 :: oid where
  "jid1 = ''0123456789abcdef01234567''"

definition jid2 :: oid where
  "jid2 = ''0123456789abcdef01234568''"

definition jid3 :: oid where
  "jid3 = ''0123456789abcdef01234569''"

definition job1 :: job where
  "job1 = \<lparr> job_id = jid1, company = ''Acme'', position = ''Engineer'', status = ''pending'',
            createdBy = idA, createdAt = 3000, updatedAt = 3000 \<rparr>"

definition job2 :: job where
  "job2 = \<lparr> job_id = jid2, company = ''Initech'', position = ''Analyst'', status = ''interview'',
            createdBy = idB, createdAt = 2000, updatedAt = 2000 \<rparr>"

definition job3 :: job where
  "job3 = \<lparr> job_id = jid3, company = ''Hooli'', position = ''Tester'', status = ''declined'',
            createdBy = idA, createdAt = 1000, updatedAt = 1000 \<rparr>"

definition ann_body :: auth_body where
  "ann_body = \<lparr> b_name = Some ''Ann'', b_email = Some ''ann@x.com'', b_password = Some ''secret1'' \<rparr>"

definition ann :: user where
  "ann = \<lparr> user_id = idA, user_name = ''Ann'', user_email = ''ann@x.com'',
           user_password = ''saltsecret1'', user_createdAt = 1000, user_updatedAt = 1000 \<rparr>"

definition ann_claims :: jwt_claims where
  "ann_claims = \<lparr> c_userId = idA, c_name = ''Ann'', c_iat = 5, c_exp = 35 \<rparr>"

definition ann_token :: string where
  "ann_token = demo_encode ann_claims ''s3cret''"

section \<open>Basic facts\<close>

lemma js_split_nonempty: "js_split sep s \<noteq> []"
  by (cases s) (auto split: list.splits)

lemma js_split_no_sep: "sep \<notin> set s \<Longrightarrow> js_split sep s = [s]"
  by (induction s) auto

lemma token_of_Bearer:
  "CHR '' '' \<notin> set t \<Longrightarrow> js_index (js_split (CHR '' '') (''Bearer '' @ t)) 1 = Some t"
  by (simp add: js_split_no_sep js_index_def)

lemma startsWith_nonempty: "startsWith h ''Bearer'' \<Longrightarrow> h \<noteq> []"
  by (auto simp: startsWith_def)

lemma ObjectId_error: "ObjectId s = Inl e \<Longrightarrow> e = CastError"
  by (simp add: ObjectId_def split: if_splits)

lemma castOpt_error: "castOpt v = Inl e \<Longrightarrow> e = CastError"
  by (cases v) (auto split: sum.splits dest: ObjectId_error)

lemma Job_findByIdAndUpdate_error:
  assumes "Job_findByIdAndUpdate a b now db = Inl e"
  shows "e = CastError \<or> e = ValidationError"
proof (cases "castObjectId a")
  case (Inl x)
  then have "x = CastError"
    by (cases a) (auto split: option.splits dest: ObjectId_error)
  with Inl assms show ?thesis by (simp add: Job_findByIdAndUpdate_def)
next
  case (Inr i)
  with assms show ?thesis
    by (auto simp: Job_findByIdAndUpdate_def findOneAndUpdate_cast_def
        split: sum.splits option.splits if_splits dest: castOpt_error)
qed

lemma castFilter_both:
  assumes "ObjectId jobId = Inr i" "ObjectId userId = Inr u"
  shows "castFilter \<lparr> f_id = Some jobId, f_createdBy = Some userId \<rparr> = Inr (Some i, Some u)"
  using assms by (simp add: castFilter_def)

subsection \<open>The collection's identifiers are unique\<close>

text \<open>
  The index on \<^verbatim>\<open>_id\<close> keeps the identifiers of a collection distinct: the
  empty collection has the property and the three writing handlers keep it.
\<close>

lemma update_first_map:
  "(\<And>x. f (g x) = f x) \<Longrightarrow> map f (update_first P g xs) = map f xs"
  by (induction xs) auto

lemma delete_first_subset: "set (delete_first P xs) \<subseteq> set xs"
  by (induction xs) auto

lemma delete_first_distinct:
  "distinct (map f xs) \<Longrightarrow> distinct (map f (delete_first P xs))"
proof (induction xs)
  case Nil
  then show ?case by simp
next
  case (Cons a xs)
  have "f ` set (delete_first P xs) \<subseteq> f ` set xs"
    using delete_first_subset [of P xs] by blast
  with Cons show ?case by auto
qed

lemma Job_create_ids_distinct:
  assumes "distinct (map job_id db)" "Job_create b i now db = Inr (j, db1)"
  shows "distinct (map job_id db1)"
  using assms
  by (auto simp: Job_create_def Let_def split: sum.splits option.splits if_splits)

lemma create_each_ids_distinct:
  "distinct (map job_id db) \<Longrightarrow> create_each bs newId i now db = (err, saved, db') \<Longrightarrow>
   distinct (map job_id db')"
proof (induction bs arbitrary: i db err saved)
  case Nil
  then show ?case by simp
next
  case (Cons b bs)
  show ?case
  proof (cases "Job_create b (newId i) now db")
    case (Inl e)
    with Cons.prems(2) obtain later saved' where
      "create_each bs newId (Suc i) now db = (later, saved', db')"
      by (auto split: prod.splits)
    with Cons.IH Cons.prems(1) show ?thesis by blast
  next
    case (Inr r)
    obtain j db1 where r: "r = (j, db1)" by (cases r)
    with Inr Cons.prems(2) obtain later saved' where
      "create_each bs newId (Suc i) now db1 = (later, saved', db')"
      by (auto split: prod.splits)
    moreover have "distinct (map job_id db1)"
      using Job_create_ids_distinct [OF Cons.prems(1)] Inr r by simp
    ultimately show ?thesis using Cons.IH by blast
  qed
qed

lemma createJob_ids_distinct:
  assumes "distinct (map job_id db)" "createJob userId body newId now db = (r, db')"
  shows "distinct (map job_id db')"
proof (cases body)
  case (BodyObject b)
  with assms show ?thesis
    by (auto simp: createJob_def split: sum.splits dest: Job_create_ids_distinct)
next
  case (BodyArray bs)
  obtain err saved db2 where c: "create_each bs newId 0 now db = (err, saved, db2)"
    by (cases "create_each bs newId 0 now db")
  with assms(2) BodyArray have "db2 = db'"
    by (cases err) (simp_all add: createJob_def)
  with c create_each_ids_distinct [OF assms(1)] show ?thesis by blast
qed

lemma updateJob_ids_distinct:
  assumes "distinct (map job_id db)" "updateJob userId jobId body now db = Inr (r, db')"
  shows "distinct (map job_id db')"
proof -
  have "map job_id (update_first P (applyUpdate body owner now) db) = map job_id db" for P owner
    by (rule update_first_map) (simp add: applyUpdate_def)
  with assms show ?thesis
    by (auto simp: updateJob_def Job_findByIdAndUpdate_def findOneAndUpdate_cast_def
        split: sum.splits option.splits if_splits)
qed

lemma deleteJob_ids_distinct:
  assumes "distinct (map job_id db)" "deleteJob userId jobId db = Inr (r, db')"
  shows "distinct (map job_id db')"
  using assms delete_first_distinct [of job_id db]
  by (auto simp: deleteJob_def Job_findOneAndDelete_def split: sum.splits option.splits)

lemma same_id_same_job:
  assumes "distinct (map job_id db)" "j \<in> set db" "j' \<in> set db" "job_id j' = job_id j"
  shows "j' = j"
  using assms by (meson distinct_map inj_onD)

lemma find_other_owner:
  assumes "distinct (map job_id db)" "j \<in> set db" "u \<noteq> createdBy j"
  shows "find (matches (Some (job_id j), Some u)) db = None"
proof -
  have "\<not> matches (Some (job_id j), Some u) x" if "x \<in> set db" for x
  proof
    assume m: "matches (Some (job_id j), Some u) x"
    then have "x = j" using same_id_same_job [OF assms(1) assms(2) that] by simp
    with m assms(3) show False by simp
  qed
  then show ?thesis by (simp add: find_None_iff)
qed

lemma find_owner:
  assumes "distinct (map job_id db)" "j \<in> set db"
  shows "find (matches (Some (job_id j), Some (createdBy j))) db = Some j"
proof -
  have "matches (Some (job_id j), Some (createdBy j)) j" by simp
  with assms(2) obtain x where x: "find (matches (Some (job_id j), Some (createdBy j))) db = Some x"
    by (cases "find (matches (Some (job_id j), Some (createdBy j))) db") (auto simp: find_None_iff)
  then have "x \<in> set db" "job_id x = job_id j"
    by (auto simp: find_Some_iff)
  then have "x = j" using same_id_same_job [OF assms] by simp
  with x show ?thesis by simp
qed

lemma delete_first_none_left:
  assumes "distinct xs" "\<And>y. y \<in> set xs \<Longrightarrow> P y \<Longrightarrow> y = x"
  shows "y \<in> set (delete_first P xs) \<Longrightarrow> \<not> P y"
  using assms
proof (induction xs)
  case Nil
  then show ?case by simp
next
  case (Cons a xs)
  show ?case
  proof (cases "P a")
    case True
    then have "a = x" using Cons.prems(3) by simp
    show ?thesis
    proof
      assume "P y"
      moreover from Cons.prems(1) True have "y \<in> set xs" by simp
      ultimately have "y = x" using Cons.prems(3) by simp
      with \<open>a = x\<close> \<open>y \<in> set xs\<close> Cons.prems(2) show False by simp
    qed
  next
    case False
    with Cons.prems(1) have "y = a \<or> y \<in> set (delete_first P xs)" by simp
    then show ?thesis
    proof
      assume "y = a" with False show ?thesis by simp
    next
      assume "y \<in> set (delete_first P xs)"
      then show ?thesis using Cons.IH Cons.prems(2,3) by simp
    qed
  qed
qed

subsection \<open>The concrete environment\<close>

lemma take_nat_enc: "take_nat (enc_nat n @ r) = Some (n, r)"
  by (induction n) simp_all

lemma take_str_enc: "take_str (enc_str s @ r) = Some (s, r)"
  by (simp add: take_str_def enc_str_def take_nat_enc)

lemma demo_roundtrip: "demo_decode (demo_encode c k) k = Some c"
  by (simp add: demo_decode_def demo_encode_def take_str_enc take_nat_enc)

lemma demo_nonempty: "demo_encode c k \<noteq> []"
  by (cases "length (c_userId c)") (simp_all add: demo_encode_def enc_str_def)

lemma demo_jwt_correct: "jwt_correct demo_env"
  by (simp add: jwt_correct_def demo_env_def demo_roundtrip demo_nonempty)

lemma ObjectId_idA: "ObjectId idA = Inr idA"
  by (simp add: ObjectId_def idA_def isHexDigit_def hexLower_def)

lemma ObjectId_idB: "ObjectId idB = Inr idB"
  by (simp add: ObjectId_def idB_def isHexDigit_def hexLower_def)

lemma ObjectId_jid1: "ObjectId jid1 = Inr jid1"
  by (simp add: ObjectId_def jid1_def isHexDigit_def hexLower_def)

lemma idA_not_idB: "idA \<noteq> idB"
  by (simp add: idA_def idB_def)

lemma ann_token_no_space: "CHR '' '' \<notin> set ann_token"
  by code_simp

lemma ann_token_nonempty: "ann_token \<noteq> []"
  unfolding ann_token_def by (rule demo_nonempty)

lemma createJWT_ann: "createJWT demo_env 5000 ann = ann_token"
  by (simp add: createJWT_def jwt_sign_def demo_env_def ann_def ann_token_def ann_claims_def)

lemma verify_ann_token:
  "jwt_verify demo_env (Some ann_token) (JWT_SECRET demo_env) 9000 = Some ann_claims"
proof -
  have "jwt_decode demo_env ann_token (JWT_SECRET demo_env) = Some ann_claims"
    by (simp add: demo_env_def ann_token_def demo_roundtrip)
  moreover have "\<not> c_exp ann_claims \<le> 9000 div 1000"
    by (simp add: ann_claims_def)
  ultimately show ?thesis
    using ann_token_nonempty by (simp add: jwt_verify_def)
qed

lemma validateUser_ann: "validateUser ann_body"
  by (simp add: validateUser_def ann_body_def required_string_def email_match_def local_ok_def
      domain_ok_def isAtom_def isLabel_def isLetter_def isDigit_def atom_excluded_def Let_def)

section \<open>Tenant isolation\<close>

text \<open>
  Reading and deleting are scoped to the caller: on a job that exists and
  belongs to somebody else, \<open>getJob\<close> and \<open>deleteJob\<close> answer as they do for a
  job that does not exist.
\<close>

lemma getJob_other_owner:
  assumes "distinct (map job_id db)" "j \<in> set db"
    and "ObjectId jobId = Inr (job_id j)" "ObjectId userId = Inr u" "u \<noteq> createdBy j"
  shows "getJob userId jobId db = Inl (NotFoundError (''No job with id '' @ jobId))"
  using find_other_owner [OF assms(1,2,5)]
  by (simp add: getJob_def Job_findOne_def castFilter_both [OF assms(3,4)])

lemma deleteJob_other_owner:
  assumes "distinct (map job_id db)" "j \<in> set db"
    and "ObjectId jobId = Inr (job_id j)" "ObjectId userId = Inr u" "u \<noteq> createdBy j"
  shows "deleteJob userId jobId db = Inl (NotFoundError (''No job with id '' @ jobId))"
  using find_other_owner [OF assms(1,2,5)]
  by (simp add: deleteJob_def Job_findOneAndDelete_def castFilter_both [OF assms(3,4)])

text \<open>
  \<open>updateJob\<close> builds the same query object as its siblings but hands it to
  \<^verbatim>\<open>findByIdAndUpdate\<close>, which takes it for an identifier and reads only its
  \<^verbatim>\<open>_id\<close>. The caller's identifier therefore has no influence on the result.
\<close>

lemma updateJob_ignores_caller:
  "updateJob u1 jobId body now db = updateJob u2 jobId body now db"
  by (simp add: updateJob_def Job_findByIdAndUpdate_def)

text \<open>
  C1: for every job created by user A and every other user B, Get, Update and
  Delete invoked with B's identifier return NotFound and never the job's data.
  The code does not do this for Update: Ann (\<open>idA\<close>) owns \<open>job1\<close>, and Bob's
  (\<open>idB\<close>) update of it is carried out and answered with status 200 and the
  updated job.
\<close>

theorem updateJob_serves_other_owner:
  "createdBy job1 = idA \<and> idA \<noteq> idB \<and>
   updateJob idB jid1
       \<lparr> b_company = Some ''Globex'', b_position = None, b_status = None, b_createdBy = None \<rparr>
       5000 [job1] =
     Inr (\<lparr> res_status = 200,
            res_json = JobBody (job1 \<lparr> company := ''Globex'', updatedAt := 5000 \<rparr>) \<rparr>,
          [job1 \<lparr> company := ''Globex'', updatedAt := 5000 \<rparr>])"
proof -
  have "createdBy job1 = idA" "job_id job1 = jid1"
    by (simp_all add: job1_def)
  then show ?thesis
    using idA_not_idB
    by (simp add: updateJob_def Job_findByIdAndUpdate_def findOneAndUpdate_cast_def
        ObjectId_jid1 validateUpdate_def enum_ok_def applyUpdate_def StatusCodes_OK_def)
qed

section \<open>Ownership of a job\<close>

text \<open>
  For a body that is a JSON object, \<open>createJob\<close> overwrites \<^verbatim>\<open>createdBy\<close> in
  the body before the document is built, so what the caller supplied there is
  not read, and the stored owner is the caller.
\<close>

lemma createJob_ignores_supplied_owner:
  "createJob userId (BodyObject (b \<lparr> b_createdBy := x \<rparr>)) newId now db =
   createJob userId (BodyObject b) newId now db"
  by (simp add: createJob_def)

lemma createJob_owner:
  assumes "createJob userId (BodyObject b) newId now db = (Inr r, db')"
  shows "\<exists>j. res_json r = JobBody j \<and> db' = db @ [j] \<and> job_id j = newId 0 \<and>
             ObjectId userId = Inr (createdBy j)"
  using assms
  by (auto simp: createJob_def Job_create_def Let_def split: sum.splits if_splits)

text \<open>
  For a body that is a JSON array the overwrite does not reach the elements:
  Ann's request stores a job whose owner is Bob, as the element says.
\<close>

lemma createJob_array_keeps_supplied_owner:
  "createJob idA
     (BodyArray [\<lparr> b_company = Some ''Acme'', b_position = Some ''Engineer'', b_status = None,
                   b_createdBy = Some idB \<rparr>])
     (\<lambda>i. jid1) 3000 [] =
   (Inr \<lparr> res_status = 201, res_json = JobArrayBody [job1 \<lparr> createdBy := idB \<rparr>] \<rparr>,
    [job1 \<lparr> createdBy := idB \<rparr>])"
  by (simp add: createJob_def Job_create_def ObjectId_idB required_string_def maxlength_ok_def
      enum_ok_def StatusCodes_CREATED_def job1_def Let_def)

text \<open>
  C2: the \<^verbatim>\<open>createdBy\<close> of a job is the identifier of the caller that created
  it: Create sets it and ignores a supplied value (so it does for an object
  body, see above), and no later operation changes it. The code does not keep
  the second half: the body of an update is applied as it is, \<^verbatim>\<open>createdBy\<close> is
  a path of the schema like the others, and Ann's update of her own \<open>job1\<close>
  with \<^verbatim>\<open>createdBy\<close> set to Bob's identifier makes Bob the stored owner.
\<close>

theorem updateJob_rewrites_createdBy:
  "createdBy job1 = idA \<and> idA \<noteq> idB \<and>
   updateJob idA jid1
       \<lparr> b_company = None, b_position = None, b_status = None, b_createdBy = Some idB \<rparr>
       5000 [job1] =
     Inr (\<lparr> res_status = 200,
            res_json = JobBody (job1 \<lparr> createdBy := idB, updatedAt := 5000 \<rparr>) \<rparr>,
          [job1 \<lparr> createdBy := idB, updatedAt := 5000 \<rparr>])"
proof -
  have "createdBy job1 = idA" "job_id job1 = jid1"
    by (simp_all add: job1_def)
  then show ?thesis
    using idA_not_idB
    by (simp add: updateJob_def Job_findByIdAndUpdate_def findOneAndUpdate_cast_def
        ObjectId_jid1 ObjectId_idB validateUpdate_def enum_ok_def applyUpdate_def
        StatusCodes_OK_def)
qed

section \<open>The authentication middleware\<close>

text \<open>
  The claim C3 as it is worded fails: a header that is not of the form
  \<^verbatim>\<open>Bearer <token>\<close> is accepted when it begins with the six letters and its
  second space-separated field verifies.
\<close>

theorem auth_accepts_other_scheme:
  "\<not> spec_bearer_form (''BearerX '' @ ann_token) \<and>
   auth demo_env 9000 (Some (''BearerX '' @ ann_token)) =
     Inr \<lparr> u_userId = idA, u_name = ''Ann'' \<rparr>"
proof -
  have "js_split (CHR '' '') (''BearerX '' @ ann_token) = [''BearerX'', ann_token]"
    by (simp add: js_split_no_sep [OF ann_token_no_space])
  then have "js_index (js_split (CHR '' '') (''BearerX '' @ ann_token)) 1 = Some ann_token"
    by (simp add: js_index_def)
  then show ?thesis
    using verify_ann_token
    by (simp add: auth_def startsWith_def spec_bearer_form_def ann_claims_def)
qed

text \<open>
  C3 (as amended): \<open>auth\<close> fails with \<open>UnauthenticatedError\<close>, always with the
  message \<^verbatim>\<open>Authentication invalid\<close>, when the Authorization header is absent, when
  it does not begin with \<^verbatim>\<open>Bearer\<close>, and when verification of its second
  space-separated field fails for whatever reason; it fails in no other way; and
  when the header begins with \<^verbatim>\<open>Bearer\<close> and that field verifies, it attaches the
  \<^verbatim>\<open>userId\<close> and \<^verbatim>\<open>name\<close> of the token's payload.
\<close>

theorem auth_unauthenticated:
  "auth E now None = Inl (UnauthenticatedError ''Authentication invalid'') \<and>
   (\<not> startsWith h ''Bearer'' \<longrightarrow>
      auth E now (Some h) = Inl (UnauthenticatedError ''Authentication invalid'')) \<and>
   (jwt_verify E (js_index (js_split (CHR '' '') h) 1) (JWT_SECRET E) now = None \<longrightarrow>
      auth E now (Some h) = Inl (UnauthenticatedError ''Authentication invalid'')) \<and>
   (\<forall>e. auth E now hdr = Inl e \<longrightarrow> e = UnauthenticatedError ''Authentication invalid'') \<and>
   (\<forall>p. startsWith h ''Bearer'' \<and>
        jwt_verify E (js_index (js_split (CHR '' '') h) 1) (JWT_SECRET E) now = Some p \<longrightarrow>
        auth E now (Some h) = Inr \<lparr> u_userId = c_userId p, u_name = c_name p \<rparr>)"
proof (intro conjI impI allI)
  show "auth E now None = Inl (UnauthenticatedError ''Authentication invalid'')"
    by (simp add: auth_def)
next
  assume "\<not> startsWith h ''Bearer''"
  then show "auth E now (Some h) = Inl (UnauthenticatedError ''Authentication invalid'')"
    by (simp add: auth_def)
next
  assume "jwt_verify E (js_index (js_split (CHR '' '') h) 1) (JWT_SECRET E) now = None"
  then show "auth E now (Some h) = Inl (UnauthenticatedError ''Authentication invalid'')"
    by (simp add: auth_def)
next
  fix e
  assume "auth E now hdr = Inl e"
  then show "e = UnauthenticatedError ''Authentication invalid''"
    by (auto simp: auth_def Let_def split: option.splits if_splits)
next
  fix p
  assume a: "startsWith h ''Bearer'' \<and>
        jwt_verify E (js_index (js_split (CHR '' '') h) 1) (JWT_SECRET E) now = Some p"
  then have "h \<noteq> []" by (simp add: startsWith_nonempty)
  with a show "auth E now (Some h) = Inr \<lparr> u_userId = c_userId p, u_name = c_name p \<rparr>"
    by (simp add: auth_def)
qed

text \<open>
  The theorem at three headers: another scheme, a token that does not decode,
  and Ann's token while it is valid; and at the error of the first.
\<close>

theorem auth_unauthenticated_witness:
  "\<not> startsWith ''Basic abc'' ''Bearer'' \<and>
   auth demo_env 9000 (Some ''Basic abc'') = Inl (UnauthenticatedError ''Authentication invalid'') \<and>
   jwt_verify demo_env (js_index (js_split (CHR '' '') ''Bearer abc'') 1) (JWT_SECRET demo_env) 9000 = None \<and>
   auth demo_env 9000 (Some ''Bearer abc'') = Inl (UnauthenticatedError ''Authentication invalid'') \<and>
   startsWith (''Bearer '' @ ann_token) ''Bearer'' \<and>
   jwt_verify demo_env (js_index (js_split (CHR '' '') (''Bearer '' @ ann_token)) 1)
     (JWT_SECRET demo_env) 9000 = Some ann_claims \<and>
   auth demo_env 9000 (Some (''Bearer '' @ ann_token)) =
     Inr \<lparr> u_userId = c_userId ann_claims, u_name = c_name ann_claims \<rparr>"
proof -
  have a: "\<not> startsWith ''Basic abc'' ''Bearer''"
    by (simp add: startsWith_def)
  have b: "jwt_verify demo_env (js_index (js_split (CHR '' '') ''Bearer abc'') 1)
             (JWT_SECRET demo_env) 9000 = None"
    by (simp add: js_index_def jwt_verify_def demo_env_def demo_decode_def take_str_def)
  have c: "startsWith (''Bearer '' @ ann_token) ''Bearer''"
    by (simp add: startsWith_def)
  have d: "jwt_verify demo_env (js_index (js_split (CHR '' '') (''Bearer '' @ ann_token)) 1)
             (JWT_SECRET demo_env) 9000 = Some ann_claims"
    using verify_ann_token by (simp only: token_of_Bearer [OF ann_token_no_space])
  show ?thesis
    using a b c d
      auth_unauthenticated [of demo_env 9000 "''Basic abc''" "Some ''Basic abc''"]
      auth_unauthenticated [of demo_env 9000 "''Bearer abc''" "Some ''Bearer abc''"]
      auth_unauthenticated [of demo_env 9000 "''Bearer '' @ ann_token" None]
    by blast
qed

section \<open>Registration and login\<close>

text \<open>
  C4: for every valid registration input, verifying the token returned by
  Register yields exactly the userId and name of the credential record that
  Register created. A valid input is one the schema's validators accept, with an
  e-mail address that is not stored yet (the driver's identifier \<open>newId\<close> being
  fresh); the token is verified, at a clock reading \<open>t\<close> before its expiry, under
  the configured secret, with a library that meets \<open>jwt_correct\<close>. Then
  \<open>register\<close> succeeds, stores the record \<open>u\<close> and returns a token whose
  verification gives \<open>u\<close>'s identifier and name, and which \<open>auth\<close> turns into
  exactly that request context when it is sent as \<^verbatim>\<open>Bearer <token>\<close>.
\<close>

theorem register_token_roundtrip:
  assumes valid: "validateUser body"
    and new_email: "the (b_email body) \<notin> set (map user_email db)"
    and new_id: "newId \<notin> set (map user_id db)"
    and lib: "jwt_correct E"
    and live: "t div 1000 < signTime div 1000 + JWT_LIFETIME E"
  shows "\<exists>u tok c.
           register E body salt newId saveTime signTime db =
             Inr (\<lparr> res_status = 201, res_json = RegisterBody (user_name u) (user_email u) tok \<rparr>,
                  db @ [u]) \<and>
           user_id u = newId \<and> user_name u = the (b_name body) \<and>
           jwt_verify E (Some tok) (JWT_SECRET E) t = Some c \<and>
           c_userId c = user_id u \<and> c_name c = user_name u \<and>
           (CHR '' '' \<notin> set tok \<longrightarrow>
              auth E t (Some (''Bearer '' @ tok)) =
                Inr \<lparr> u_userId = user_id u, u_name = user_name u \<rparr>)"
proof -
  let ?u = "\<lparr> user_id = newId, user_name = the (b_name body), user_email = the (b_email body),
              user_password = bcrypt_hash E (the (b_password body)) salt,
              user_createdAt = saveTime, user_updatedAt = saveTime \<rparr>"
  let ?c = "\<lparr> c_userId = newId, c_name = the (b_name body),
              c_iat = signTime div 1000, c_exp = signTime div 1000 + JWT_LIFETIME E \<rparr>"
  let ?tok = "createJWT E signTime ?u"
  have tok: "?tok = jwt_encode E ?c (JWT_SECRET E)"
    by (simp add: createJWT_def jwt_sign_def)
  have reg: "register E body salt newId saveTime signTime db =
      Inr (\<lparr> res_status = 201, res_json = RegisterBody (user_name ?u) (user_email ?u) ?tok \<rparr>,
           db @ [?u])"
    using valid new_email new_id
    by (simp add: register_def User_create_def StatusCodes_CREATED_def Let_def)
  have ne: "?tok \<noteq> []" and dec: "jwt_decode E ?tok (JWT_SECRET E) = Some ?c"
    using lib unfolding tok jwt_correct_def by blast+
  have ver: "jwt_verify E (Some ?tok) (JWT_SECRET E) t = Some ?c"
    using ne dec live by (simp add: jwt_verify_def)
  have au: "auth E t (Some (''Bearer '' @ ?tok)) =
      Inr \<lparr> u_userId = user_id ?u, u_name = user_name ?u \<rparr>" if "CHR '' '' \<notin> set ?tok"
    using ver token_of_Bearer [OF that]
    by (simp add: auth_def startsWith_def)
  show ?thesis
    apply (rule exI [of _ ?u], rule exI [of _ ?tok], rule exI [of _ ?c])
    using reg ver au by simp
qed

text \<open>
  Ann registers with the empty credential store; the token signed at 5000 ms is
  verified and presented at 9000 ms.
\<close>

theorem register_token_roundtrip_witness:
  "validateUser ann_body \<and> the (b_email ann_body) \<notin> set (map user_email []) \<and>
   idA \<notin> set (map user_id []) \<and> jwt_correct demo_env \<and>
   (9000 :: nat) div 1000 < 5000 div 1000 + JWT_LIFETIME demo_env \<and>
   register demo_env ann_body ''salt'' idA 1000 5000 [] =
     Inr (\<lparr> res_status = 201, res_json = RegisterBody ''Ann'' ''ann@x.com'' ann_token \<rparr>, [ann]) \<and>
   jwt_verify demo_env (Some ann_token) (JWT_SECRET demo_env) 9000 = Some ann_claims \<and>
   auth demo_env 9000 (Some (''Bearer '' @ ann_token)) = Inr \<lparr> u_userId = idA, u_name = ''Ann'' \<rparr>"
proof -
  have h2: "the (b_email ann_body) \<notin> set (map user_email [])" and h3: "idA \<notin> set (map user_id [])"
    by simp_all
  have h5: "(9000 :: nat) div 1000 < 5000 div 1000 + JWT_LIFETIME demo_env"
    by (simp add: demo_env_def)
  have reg: "register demo_env ann_body ''salt'' idA 1000 5000 [] =
     Inr (\<lparr> res_status = 201, res_json = RegisterBody ''Ann'' ''ann@x.com'' ann_token \<rparr>, [ann])"
  proof -
    have "User_create demo_env ann_body ''salt'' idA 1000 [] = Inr (ann, [ann])"
      using validateUser_ann
      by (simp add: User_create_def Let_def) (simp add: ann_body_def ann_def demo_env_def)
    then show ?thesis
      by (simp add: register_def createJWT_ann StatusCodes_CREATED_def) (simp add: ann_def)
  qed
  obtain u tok c where
    r: "register demo_env ann_body ''salt'' idA 1000 5000 [] =
          Inr (\<lparr> res_status = 201, res_json = RegisterBody (user_name u) (user_email u) tok \<rparr>,
               [] @ [u])"
    and v: "jwt_verify demo_env (Some tok) (JWT_SECRET demo_env) 9000 = Some c"
    and cu: "c_userId c = user_id u" "c_name c = user_name u"
    and a: "CHR '' '' \<notin> set tok \<longrightarrow>
              auth demo_env 9000 (Some (''Bearer '' @ tok)) =
                Inr \<lparr> u_userId = user_id u, u_name = user_name u \<rparr>"
    using register_token_roundtrip [OF validateUser_ann h2 h3 demo_jwt_correct h5,
        of "''salt''" 1000]
    by blast
  from r reg have "u = ann" "tok = ann_token" by simp_all
  with v a ann_token_no_space
  have "jwt_verify demo_env (Some ann_token) (JWT_SECRET demo_env) 9000 = Some c"
    and "auth demo_env 9000 (Some (''Bearer '' @ ann_token)) =
           Inr \<lparr> u_userId = user_id ann, u_name = user_name ann \<rparr>"
    by simp_all
  moreover have "user_id ann = idA" "user_name ann = ''Ann''"
    by (simp_all add: ann_def)
  ultimately show ?thesis
    using validateUser_ann h2 h3 demo_jwt_correct h5 reg verify_ann_token by simp
qed

text \<open>
  The claim C5 as it is worded fails. Against the store holding Ann, a login
  with an unknown address is answered with \<open>UnauthenticatedError\<close> (401). A login
  with Ann's address and a password that does not match is answered
  differently when that password is the empty string, which the guard at the
  head of \<open>login\<close> turns into a \<open>BadRequestError\<close> (400), and when it is a
  number, which \<^verbatim>\<open>bcrypt.compare\<close> refuses with a plain error (500).
\<close>

theorem login_failures_differ:
  "User_findOne demo_env (JStr ''bob@x.com'') [ann] = Inr None \<and>
   User_findOne demo_env (JStr ''ann@x.com'') [ann] = Inr (Some ann) \<and>
   comparePassword demo_env ann (JStr []) = Inr False \<and>
   snd (login demo_env \<lparr> l_email = Some (JStr ''bob@x.com''), l_password = Some (JStr ''secret1'') \<rparr>
          7000 [ann]) =
     Inl (UnauthenticatedError ''Invalid Credentials'') \<and>
   snd (login demo_env \<lparr> l_email = Some (JStr ''ann@x.com''), l_password = Some (JStr []) \<rparr>
          7000 [ann]) =
     Inl (BadRequestError ''Please provide email and password'') \<and>
   snd (login demo_env \<lparr> l_email = Some (JStr ''ann@x.com''), l_password = Some (JNum 123456) \<rparr>
          7000 [ann]) =
     Inl (PlainError ''Illegal arguments: number, string'') \<and>
   errorStatus (UnauthenticatedError ''Invalid Credentials'') = 401 \<and>
   errorStatus (BadRequestError ''Please provide email and password'') = 400 \<and>
   errorStatus (PlainError ''Illegal arguments: number, string'') = 500"
proof -
  have a: "User_findOne demo_env (JStr ''bob@x.com'') [ann] = Inr None"
    and b: "User_findOne demo_env (JStr ''ann@x.com'') [ann] = Inr (Some ann)"
    by (simp_all add: User_findOne_def ann_def)
  have c: "comparePassword demo_env ann (JStr []) = Inr False"
    by (simp add: comparePassword_def demo_env_def ann_def)
  have d: "comparePassword demo_env ann (JNum 123456) =
      Inl (PlainError ''Illegal arguments: number, string'')"
    by (simp add: comparePassword_def)
  show ?thesis
    using a b c d by (simp add: login_def falsy_def)
qed

text \<open>
  C5 (as amended): when both requests carry an e-mail address and a password
  that are non-empty strings, a login with an address that matches no credential
  record and a login with an existing address but a password that does not match
  produce identical error bodies and identical status codes. Both throw the same
  error object, an \<open>UnauthenticatedError\<close> with the message
  \<^verbatim>\<open>Invalid Credentials\<close>, so that any translation of the error into a response,
  here \<open>respond\<close>, gives the same response twice; its status is 401.
\<close>

theorem login_failures_indistinguishable:
  assumes "e1 \<noteq> []" "p1 \<noteq> []" "e1 \<notin> set (map user_email db)"
    and "e2 \<noteq> []" "p2 \<noteq> []" "User_findOne E (JStr e2) db = Inr (Some u)"
    and "comparePassword E u (JStr p2) = Inr False"
  shows "snd (login E \<lparr> l_email = Some (JStr e1), l_password = Some (JStr p1) \<rparr> now db) =
           Inl (UnauthenticatedError ''Invalid Credentials'') \<and>
         snd (login E \<lparr> l_email = Some (JStr e2), l_password = Some (JStr p2) \<rparr> now' db) =
           Inl (UnauthenticatedError ''Invalid Credentials'') \<and>
         respond (snd (login E \<lparr> l_email = Some (JStr e1), l_password = Some (JStr p1) \<rparr> now db)) =
           respond (snd (login E \<lparr> l_email = Some (JStr e2), l_password = Some (JStr p2) \<rparr> now' db)) \<and>
         errorStatus (UnauthenticatedError ''Invalid Credentials'') = 401"
proof -
  have "User_findOne E (JStr e1) db = Inr None"
    using assms(3) by (auto simp: User_findOne_def find_None_iff)
  with assms show ?thesis
    by (simp add: login_def falsy_def)
qed

text \<open>Against the store holding Ann: an unknown address, and Ann's address with a wrong password.\<close>

theorem login_failures_indistinguishable_witness:
  "''bob@x.com'' \<noteq> [] \<and> ''secret1'' \<noteq> [] \<and> ''bob@x.com'' \<notin> set (map user_email [ann]) \<and>
   ''ann@x.com'' \<noteq> [] \<and> ''wrongpw'' \<noteq> [] \<and>
   User_findOne demo_env (JStr ''ann@x.com'') [ann] = Inr (Some ann) \<and>
   comparePassword demo_env ann (JStr ''wrongpw'') = Inr False \<and>
   snd (login demo_env \<lparr> l_email = Some (JStr ''bob@x.com''), l_password = Some (JStr ''secret1'') \<rparr>
          7000 [ann]) =
     Inl (UnauthenticatedError ''Invalid Credentials'') \<and>
   snd (login demo_env \<lparr> l_email = Some (JStr ''ann@x.com''), l_password = Some (JStr ''wrongpw'') \<rparr>
          8000 [ann]) =
     Inl (UnauthenticatedError ''Invalid Credentials'')"
proof -
  have a: "''bob@x.com'' \<notin> set (map user_email [ann])"
    by (simp add: ann_def)
  have b: "User_findOne demo_env (JStr ''ann@x.com'') [ann] = Inr (Some ann)"
    by (simp add: User_findOne_def ann_def)
  have c: "comparePassword demo_env ann (JStr ''wrongpw'') = Inr False"
    by (simp add: comparePassword_def demo_env_def ann_def)
  have n: "''bob@x.com'' \<noteq> []" "''secret1'' \<noteq> []" "''ann@x.com'' \<noteq> []" "''wrongpw'' \<noteq> []"
    by simp_all
  show ?thesis
    using a b c
      login_failures_indistinguishable [OF n(1) n(2) a n(3) n(4) b c,
        of 7000 8000 "\<lambda>x. x"]
    by simp
qed

text \<open>
  C9: Login treats a present-but-empty e-mail or password as an absent one: when
  either is the empty string the result is \<open>BadRequestError\<close> (400), the same as
  for a body with neither field, never \<open>UnauthenticatedError\<close>, and neither the
  credential store nor the hashing library has been called.
\<close>

theorem login_empty_field_bad_request:
  assumes "l_email body = Some (JStr []) \<or> l_password body = Some (JStr [])"
  shows "login E body now db = ([], Inl (BadRequestError ''Please provide email and password'')) \<and>
         login E body now db = login E \<lparr> l_email = None, l_password = None \<rparr> now db \<and>
         (\<forall>m. snd (login E body now db) \<noteq> Inl (UnauthenticatedError m)) \<and>
         errorStatus (BadRequestError ''Please provide email and password'') = 400"
  using assms by (auto simp: login_def falsy_def)

text \<open>Ann's address with an empty password, against the store holding Ann.\<close>

theorem login_empty_field_bad_request_witness:
  "l_password \<lparr> l_email = Some (JStr ''ann@x.com''), l_password = Some (JStr []) \<rparr> =
     Some (JStr []) \<and>
   login demo_env \<lparr> l_email = Some (JStr ''ann@x.com''), l_password = Some (JStr []) \<rparr> 7000 [ann] =
     ([], Inl (BadRequestError ''Please provide email and password''))"
  using login_empty_field_bad_request
    [of "\<lparr> l_email = Some (JStr ''ann@x.com''), l_password = Some (JStr []) \<rparr>" demo_env 7000 "[ann]"]
  by simp

section \<open>The job controller\<close>

text \<open>
  C6: for every Update input in which company or position is present and equal
  to the empty string, Update fails with \<open>BadRequestError\<close> (400), whatever the
  other fields, the identifiers and the collection are; an input that omits both
  fields is not rejected with a \<open>BadRequestError\<close>.
\<close>

theorem updateJob_empty_field_rejected:
  "(b_company body = Some [] \<or> b_position body = Some [] \<longrightarrow>
      updateJob userId jobId body now db =
        Inl (BadRequestError ''Company or Position fields cannot be empty'') \<and>
      errorStatus (BadRequestError ''Company or Position fields cannot be empty'') = 400) \<and>
   (b_company body = None \<and> b_position body = None \<longrightarrow>
      (\<forall>m. updateJob userId jobId body now db \<noteq> Inl (BadRequestError m)))"
proof (intro conjI impI allI)
  assume "b_company body = Some [] \<or> b_position body = Some []"
  then show "updateJob userId jobId body now db =
        Inl (BadRequestError ''Company or Position fields cannot be empty'')"
    by (auto simp: updateJob_def)
next
  show "errorStatus (BadRequestError ''Company or Position fields cannot be empty'') = 400"
    by simp
next
  fix m
  assume a: "b_company body = None \<and> b_position body = None"
  show "updateJob userId jobId body now db \<noteq> Inl (BadRequestError m)"
  proof
    assume r: "updateJob userId jobId body now db = Inl (BadRequestError m)"
    from a have "\<not> (b_company body = Some [] \<or> b_position body = Some [])" by simp
    with r show False
      by (auto simp: updateJob_def split: sum.splits option.splits prod.splits
          dest: Job_findByIdAndUpdate_error)
  qed
qed

text \<open>
  An empty company next to a valid position and status, and a body with a status
  only, both sent by Ann for her \<open>job1\<close>.
\<close>

theorem updateJob_empty_field_rejected_witness:
  "b_company \<lparr> b_company = Some [], b_position = Some ''Engineer'', b_status = Some ''interview'',
               b_createdBy = None \<rparr> = Some [] \<and>
   updateJob idA jid1
       \<lparr> b_company = Some [], b_position = Some ''Engineer'', b_status = Some ''interview'',
         b_createdBy = None \<rparr> 5000 [job1] =
     Inl (BadRequestError ''Company or Position fields cannot be empty'') \<and>
   b_company \<lparr> b_company = None, b_position = None, b_status = Some ''interview'',
               b_createdBy = None \<rparr> = None \<and>
   b_position \<lparr> b_company = None, b_position = None, b_status = Some ''interview'',
                b_createdBy = None \<rparr> = None \<and>
   (\<forall>m. updateJob idA jid1
           \<lparr> b_company = None, b_position = None, b_status = Some ''interview'',
             b_createdBy = None \<rparr> 5000 [job1] \<noteq> Inl (BadRequestError m))"
  using
    updateJob_empty_field_rejected
      [of "\<lparr> b_company = Some [], b_position = Some ''Engineer'', b_status = Some ''interview'',
              b_createdBy = None \<rparr>" idA jid1 5000 "[job1]"]
    updateJob_empty_field_rejected
      [of "\<lparr> b_company = None, b_position = None, b_status = Some ''interview'',
              b_createdBy = None \<rparr>" idA jid1 5000 "[job1]"]
  by simp

text \<open>
  C7: for every job owned by the caller, the first Delete on its identifier
  succeeds and a second Delete on the same identifier by the same caller returns
  NotFound. The job \<open>j\<close> is in a collection whose identifiers are distinct, the
  path parameter denotes its identifier and the caller is its owner.
\<close>

theorem deleteJob_twice:
  assumes "distinct (map job_id db)" "j \<in> set db"
    and "ObjectId jobId = Inr (job_id j)" "ObjectId userId = Inr (createdBy j)"
  shows "\<exists>db'. deleteJob userId jobId db = Inr (\<lparr> res_status = 200, res_json = NoBody \<rparr>, db') \<and>
               j \<notin> set db' \<and>
               deleteJob userId jobId db' = Inl (NotFoundError (''No job with id '' @ jobId))"
proof -
  let ?q = "(Some (job_id j), Some (createdBy j))"
  let ?db' = "delete_first (matches ?q) db"
  have cf: "castFilter \<lparr> f_id = Some jobId, f_createdBy = Some userId \<rparr> = Inr ?q"
    by (rule castFilter_both [OF assms(3,4)])
  have first: "deleteJob userId jobId db = Inr (\<lparr> res_status = 200, res_json = NoBody \<rparr>, ?db')"
    using find_owner [OF assms(1,2)]
    by (simp add: deleteJob_def Job_findOneAndDelete_def cf StatusCodes_OK_def)
  have d: "distinct db" using assms(1) by (simp add: distinct_map)
  have uniq: "y = j" if "y \<in> set db" "matches ?q y" for y
    using same_id_same_job [OF assms(1,2) that(1)] that(2) by simp
  have none: "\<not> matches ?q y" if "y \<in> set ?db'" for y
    using delete_first_none_left [OF d uniq that] by simp
  then have gone: "j \<notin> set ?db'" by auto
  from none have "find (matches ?q) ?db' = None"
    by (simp add: find_None_iff)
  then have second: "deleteJob userId jobId ?db' = Inl (NotFoundError (''No job with id '' @ jobId))"
    by (simp add: deleteJob_def Job_findOneAndDelete_def cf)
  from first gone second show ?thesis by blast
qed

text \<open>Ann deletes \<open>job1\<close> from the collection that also holds Bob's \<open>job2\<close>.\<close>

theorem deleteJob_twice_witness:
  "distinct (map job_id [job2, job1]) \<and> job1 \<in> set [job2, job1] \<and>
   ObjectId jid1 = Inr (job_id job1) \<and> ObjectId idA = Inr (createdBy job1) \<and>
   (\<exists>db'. deleteJob idA jid1 [job2, job1] = Inr (\<lparr> res_status = 200, res_json = NoBody \<rparr>, db') \<and>
          job1 \<notin> set db' \<and>
          deleteJob idA jid1 db' = Inl (NotFoundError (''No job with id '' @ jid1)))"
proof -
  have a: "distinct (map job_id [job2, job1])"
    by (simp add: job1_def job2_def jid1_def jid2_def)
  have b: "job1 \<in> set [job2, job1]" by simp
  have c: "ObjectId jid1 = Inr (job_id job1)"
    using ObjectId_jid1 by (simp add: job1_def)
  have d: "ObjectId idA = Inr (createdBy job1)"
    using ObjectId_idA by (simp add: job1_def)
  show ?thesis
    using a b c d deleteJob_twice [OF a b c d] by blast
qed

text \<open>
  C8: for every authenticated caller and every state of the collection, List
  returns exactly the jobs whose \<^verbatim>\<open>createdBy\<close> is the caller's identifier (each as
  often as it is stored), sorted by creation instant ascending, together with
  their count. The caller's identifier is \<open>u\<close>, the identifier its \<^verbatim>\<open>userId\<close>
  denotes.
\<close>

theorem getAllJobs_own_sorted:
  assumes "ObjectId userId = Inr u"
  shows "\<exists>jobs. getAllJobs userId db =
            Inr \<lparr> res_status = 200, res_json = JobsBody jobs (length jobs) \<rparr> \<and>
          mset jobs = mset (filter (\<lambda>j. createdBy j = u) db) \<and>
          sorted (map createdAt jobs)"
proof -
  have "castFilter \<lparr> f_id = None, f_createdBy = Some userId \<rparr> = Inr (None, Some u)"
    using assms by (simp add: castFilter_def)
  moreover have "matches (None, Some u) = (\<lambda>j. createdBy j = u)"
    by (rule ext) simp
  ultimately show ?thesis
    by (simp add: getAllJobs_def Job_find_def StatusCodes_OK_def Let_def)
qed

text \<open>Ann lists her jobs; the collection holds them out of order, with one of Bob's between.\<close>

theorem getAllJobs_own_sorted_witness:
  "ObjectId idA = Inr idA \<and>
   (\<exists>jobs. getAllJobs idA [job1, job2, job3] =
            Inr \<lparr> res_status = 200, res_json = JobsBody jobs (length jobs) \<rparr> \<and>
          mset jobs = mset (filter (\<lambda>j. createdBy j = idA) [job1, job2, job3]) \<and>
          sorted (map createdAt jobs)) \<and>
   getAllJobs idA [job1, job2, job3] =
     Inr \<lparr> res_status = 200, res_json = JobsBody [job3, job1] 2 \<rparr>"
proof -
  have "getAllJobs idA [job1, job2, job3] =
     Inr \<lparr> res_status = 200, res_json = JobsBody [job3, job1] 2 \<rparr>"
    by (simp add: getAllJobs_def Job_find_def castFilter_def ObjectId_idA StatusCodes_OK_def)
       (simp add: job1_def job2_def job3_def idA_def idB_def)
  then show ?thesis
    using ObjectId_idA getAllJobs_own_sorted [OF ObjectId_idA, of "[job1, job2, job3]"]
    by blast
qed

section \<open>The shape check of the middleware\<close>

text \<open>
  C10: the header check of \<open>auth\<close> only requires the value to start with the
  literal prefix \<^verbatim>\<open>Bearer\<close>, no space after it: for every such header the result
  is decided by verifying the second space-separated field of the header. The
  headers \<^verbatim>\<open>BearerX\<close> and \<^verbatim>\<open>Bearer\<close> pass the check, have no second field, and
  are rejected because verification of a missing token fails, with the same
  \<open>UnauthenticatedError\<close>.
\<close>

theorem auth_shape_check:
  "(startsWith h ''Bearer'' \<longrightarrow>
      auth E now (Some h) =
        (case jwt_verify E (js_index (js_split (CHR '' '') h) 1) (JWT_SECRET E) now of
           None \<Rightarrow> Inl (UnauthenticatedError ''Authentication invalid'')
         | Some p \<Rightarrow> Inr \<lparr> u_userId = c_userId p, u_name = c_name p \<rparr>)) \<and>
   jwt_verify E None (JWT_SECRET E) now = None \<and>
   startsWith ''BearerX'' ''Bearer'' \<and> js_index (js_split (CHR '' '') ''BearerX'') 1 = None \<and>
   auth E now (Some ''BearerX'') = Inl (UnauthenticatedError ''Authentication invalid'') \<and>
   startsWith ''Bearer'' ''Bearer'' \<and> js_index (js_split (CHR '' '') ''Bearer'') 1 = None \<and>
   auth E now (Some ''Bearer'') = Inl (UnauthenticatedError ''Authentication invalid'')"
proof -
  have "auth E now (Some h) =
        (case jwt_verify E (js_index (js_split (CHR '' '') h) 1) (JWT_SECRET E) now of
           None \<Rightarrow> Inl (UnauthenticatedError ''Authentication invalid'')
         | Some p \<Rightarrow> Inr \<lparr> u_userId = c_userId p, u_name = c_name p \<rparr>)"
    if "startsWith h ''Bearer''"
    using that startsWith_nonempty [OF that] by (simp add: auth_def)
  moreover have "jwt_verify E None (JWT_SECRET E) now = None"
    by (simp add: jwt_verify_def)
  moreover have "startsWith ''BearerX'' ''Bearer''" "startsWith ''Bearer'' ''Bearer''"
    by (simp_all add: startsWith_def)
  moreover have "js_index (js_split (CHR '' '') ''BearerX'') 1 = None"
    "js_index (js_split (CHR '' '') ''Bearer'') 1 = None"
    by (simp_all add: js_index_def)
  moreover have "auth E now (Some ''BearerX'') = Inl (UnauthenticatedError ''Authentication invalid'')"
    "auth E now (Some ''Bearer'') = Inl (UnauthenticatedError ''Authentication invalid'')"
    by (simp_all add: auth_def startsWith_def js_index_def jwt_verify_def)
  ultimately show ?thesis by blast
qed

text \<open>
  A header with no space after the six letters whose second field is Ann's
  token.
\<close>

theorem auth_shape_check_witness:
  "startsWith (''BearerX '' @ ann_token) ''Bearer'' \<and>
   js_index (js_split (CHR '' '') (''BearerX '' @ ann_token)) 1 = Some ann_token \<and>
   auth demo_env 9000 (Some (''BearerX '' @ ann_token)) =
     Inr \<lparr> u_userId = c_userId ann_claims, u_name = c_name ann_claims \<rparr>"
proof -
  have a: "startsWith (''BearerX '' @ ann_token) ''Bearer''"
    by (simp add: startsWith_def)
  have "js_split (CHR '' '') (''BearerX '' @ ann_token) = [''BearerX'', ann_token]"
    by (simp add: js_split_no_sep [OF ann_token_no_space])
  then have b: "js_index (js_split (CHR '' '') (''BearerX '' @ ann_token)) 1 = Some ann_token"
    by (simp add: js_index_def)
  show ?thesis
    using a b verify_ann_token auth_shape_check [of "''BearerX '' @ ann_token" demo_env 9000]
    by simp
qed

end
